theory Spec2Isabelle
  imports Complex_Main "HOL-Library.Char_ord" "HOL-Library.List_Lexorder"
begin

section \<open>Python values\<close>

text \<open>
  The script \<^verbatim>\<open>anet_inventory.py\<close> works on the values the provider's client and the
  \<^verbatim>\<open>json\<close> module hand it: \<^verbatim>\<open>None\<close>, booleans, integers, strings, lists and
  dictionaries. Floating point numbers are not modelled as values. Strings are plain
  byte strings; Python 2's separate \<^verbatim>\<open>unicode\<close> type is not distinguished from
  \<^verbatim>\<open>str\<close>.

  A dictionary key is \<^verbatim>\<open>None\<close>, an integer or a string (\<^verbatim>\<open>True\<close> and \<^verbatim>\<open>False\<close>
  hash and compare as 1 and 0). A dictionary is an association list kept strictly
  sorted by key, so that two dictionaries are equal as Python objects exactly when
  their models are equal. The order on keys is the one Python 2 uses when
  \<^verbatim>\<open>json.dumps\<close> is asked for \<^verbatim>\<open>sort_keys=True\<close>: \<^verbatim>\<open>None\<close> first, then the
  numbers, then the strings in byte order.
\<close>

datatype pykey = KNone | KInt int | KStr string

datatype pyval =
    PNone
  | PBool bool
  | PInt int
  | PStr string
  | PList "pyval list"
  | PDict "(pykey \<times> pyval) list"

datatype error =
    KeyError
  | TypeError
  | AttributeError
  | ValueError
  | IOError
  | ApiError
  | SystemExit int

instantiation pykey :: linorder
begin

fun less_eq_pykey :: "pykey \<Rightarrow> pykey \<Rightarrow> bool" where
  "less_eq_pykey KNone b = True"
| "less_eq_pykey (KInt i) KNone = False"
| "less_eq_pykey (KInt i) (KInt j) = (i \<le> j)"
| "less_eq_pykey (KInt i) (KStr t) = True"
| "less_eq_pykey (KStr s) (KStr t) = (s \<le> t)"
| "less_eq_pykey (KStr s) b = False"

definition less_pykey :: "pykey \<Rightarrow> pykey \<Rightarrow> bool" where
  "less_pykey a b = (a \<le> b \<and> \<not> b \<le> a)"

instance
proof
  fix x y z :: pykey
  show "(x < y) = (x \<le> y \<and> \<not> y \<le> x)"
    by (simp add: less_pykey_def)
  show "x \<le> x"
    by (cases x) simp_all
  show "x \<le> y \<Longrightarrow> y \<le> z \<Longrightarrow> x \<le> z"
    by (cases x; cases y; cases z) simp_all
  show "x \<le> y \<Longrightarrow> y \<le> x \<Longrightarrow> x = y"
    by (cases x; cases y) simp_all
  show "x \<le> y \<or> y \<le> x"
    by (cases x; cases y) auto
qed

end

subsection \<open>Sequencing of steps that may raise\<close>

definition bind_e :: "error + 'a \<Rightarrow> ('a \<Rightarrow> error + 'b) \<Rightarrow> error + 'b" where
  "bind_e m f = (case m of Inl e \<Rightarrow> Inl e | Inr x \<Rightarrow> f x)"

subsection \<open>Dictionaries and the operations the script applies to values\<close>

text \<open>\<^verbatim>\<open>d[k] = v\<close> on a dictionary: replace the entry of \<open>k\<close> or add one.\<close>

fun dict_set :: "pykey \<Rightarrow> pyval \<Rightarrow> (pykey \<times> pyval) list \<Rightarrow> (pykey \<times> pyval) list" where
  "dict_set k v [] = [(k, v)]"
| "dict_set k v ((k', v') # kvs) =
     (if k = k' then (k, v) # kvs
      else if k < k' then (k, v) # (k', v') # kvs
      else (k', v') # dict_set k v kvs)"

text \<open>A dictionary display \<^verbatim>\<open>{k1: v1, k2: v2, ...}\<close>.\<close>

definition dict_items :: "(pykey \<times> pyval) list \<Rightarrow> (pykey \<times> pyval) list" where
  "dict_items kvs = fold (\<lambda>kv d. dict_set (fst kv) (snd kv) d) kvs []"

definition dict_of :: "(pykey \<times> pyval) list \<Rightarrow> pyval" where
  "dict_of kvs = PDict (dict_items kvs)"

text \<open>
  \<^verbatim>\<open>obj['name']\<close>: a missing key of a dictionary is a \<^verbatim>\<open>KeyError\<close>; a list, a string
  or a scalar subscripted with a string is a \<^verbatim>\<open>TypeError\<close>.
\<close>

fun getitem :: "pyval \<Rightarrow> string \<Rightarrow> error + pyval" where
  "getitem (PDict kvs) name =
     (case map_of kvs (KStr name) of None \<Rightarrow> Inl KeyError | Some v \<Rightarrow> Inr v)"
| "getitem obj name = Inl TypeError"

text \<open>\<^verbatim>\<open>obj['name'] = v\<close>: only a dictionary takes a string subscript.\<close>

fun setitem :: "pyval \<Rightarrow> string \<Rightarrow> pyval \<Rightarrow> error + pyval" where
  "setitem (PDict kvs) name v = Inr (PDict (dict_set (KStr name) v kvs))"
| "setitem obj name v = Inl TypeError"

text \<open>The key a value is stored under; lists and dictionaries are unhashable.\<close>

fun to_key :: "pyval \<Rightarrow> error + pykey" where
  "to_key PNone = Inr KNone"
| "to_key (PBool b) = Inr (KInt (if b then 1 else 0))"
| "to_key (PInt i) = Inr (KInt i)"
| "to_key (PStr s) = Inr (KStr s)"
| "to_key (PList xs) = Inl TypeError"
| "to_key (PDict kvs) = Inl TypeError"

fun key_value :: "pykey \<Rightarrow> pyval" where
  "key_value KNone = PNone"
| "key_value (KInt i) = PInt i"
| "key_value (KStr s) = PStr s"

text \<open>Truth value testing, as in \<^verbatim>\<open>if group:\<close>.\<close>

fun truthy :: "pyval \<Rightarrow> bool" where
  "truthy PNone = False"
| "truthy (PBool b) = b"
| "truthy (PInt i) = (i \<noteq> 0)"
| "truthy (PStr s) = (s \<noteq> [])"
| "truthy (PList xs) = (xs \<noteq> [])"
| "truthy (PDict kvs) = (kvs \<noteq> [])"

text \<open>\<^verbatim>\<open>len(obj)\<close>.\<close>

fun py_len :: "pyval \<Rightarrow> error + nat" where
  "py_len (PStr s) = Inr (length s)"
| "py_len (PList xs) = Inr (length xs)"
| "py_len (PDict kvs) = Inr (length kvs)"
| "py_len obj = Inl TypeError"

text \<open>
  The elements a \<^verbatim>\<open>for\<close> loop visits: those of a list, the keys of a dictionary, the
  one-character strings of a string.
\<close>

fun py_iter :: "pyval \<Rightarrow> error + pyval list" where
  "py_iter (PList xs) = Inr xs"
| "py_iter (PDict kvs) = Inr (map (\<lambda>kv. key_value (fst kv)) kvs)"
| "py_iter (PStr s) = Inr (map (\<lambda>c. PStr [c]) s)"
| "py_iter obj = Inl TypeError"

text \<open>\<^verbatim>\<open>'prefix' + obj\<close>: only a string can be appended to a string.\<close>

fun str_concat :: "string \<Rightarrow> pyval \<Rightarrow> error + string" where
  "str_concat prefix (PStr s) = Inr (prefix @ s)"
| "str_concat prefix obj = Inl TypeError"

section \<open>Utilities\<close>

text \<open>
  \<^verbatim>\<open>to_safe\<close> is \<^verbatim>\<open>re.sub("[^A-Za-z0-9\-\.]", "_", word)\<close>: every character outside the
  class is replaced by an underscore. The class holds the letters, the digits, the
  hyphen and the dot.
\<close>

definition safe_char :: "char \<Rightarrow> bool" where
  "safe_char c =
     ((CHR ''A'' \<le> c \<and> c \<le> CHR ''Z'') \<or> (CHR ''a'' \<le> c \<and> c \<le> CHR ''z'') \<or>
      (CHR ''0'' \<le> c \<and> c \<le> CHR ''9'') \<or> c = CHR ''-'' \<or> c = CHR ''.'')"

definition to_safe :: "string \<Rightarrow> string" where
  "to_safe word = map (\<lambda>c. if safe_char c then c else CHR ''_'') word"

text \<open>\<^verbatim>\<open>re.sub\<close> raises \<^verbatim>\<open>TypeError\<close> when \<^verbatim>\<open>word\<close> is not a string.\<close>

fun to_safe_val :: "pyval \<Rightarrow> error + pyval" where
  "to_safe_val (PStr s) = Inr (PStr (to_safe s))"
| "to_safe_val obj = Inl TypeError"

section \<open>The JSON library\<close>

text \<open>
  \<^verbatim>\<open>json.dumps\<close> and \<^verbatim>\<open>json.loads\<close> belong to Python's standard library. They are
  modelled up to the concrete syntax of JSON text: \<^verbatim>\<open>json.dumps\<close> yields the document it
  would print, \<^verbatim>\<open>json.loads\<close> the value it builds from a document. The members of a
  JSON object are named by strings, in the order of the text, and a name may occur twice.
\<close>

datatype jsonv =
    JNull
  | JBool bool
  | JNum int
  | JString string
  | JArray "jsonv list"
  | JObject "(string \<times> jsonv) list"

text \<open>\<^verbatim>\<open>str(i)\<close> for an integer: its decimal digits, with a minus sign when negative.\<close>

definition digit_char :: "nat \<Rightarrow> char" where
  "digit_char d = ''0123456789'' ! d"

function str_of_nat :: "nat \<Rightarrow> string" where
  "str_of_nat n = (if n < 10 then [digit_char n] else str_of_nat (n div 10) @ [digit_char (n mod 10)])"
  by pat_completeness auto
termination
  by (relation "measure (\<lambda>n. n)") auto

definition str_of_int :: "int \<Rightarrow> string" where
  "str_of_int i = (if i < 0 then CHR ''-'' # str_of_nat (nat (- i)) else str_of_nat (nat i))"

text \<open>
  The name a dictionary key gets in a JSON object: a string stays, an integer is
  written in decimal, \<^verbatim>\<open>None\<close> becomes \<^verbatim>\<open>null\<close>.
\<close>

fun key_name :: "pykey \<Rightarrow> string" where
  "key_name KNone = ''null''"
| "key_name (KInt i) = str_of_int i"
| "key_name (KStr s) = s"

text \<open>\<^verbatim>\<open>json.dumps(obj, sort_keys=True, indent=2)\<close>: the items of a dictionary are sorted
  by key; then each key is turned into its name.\<close>

fun encode :: "pyval \<Rightarrow> jsonv" where
  "encode PNone = JNull"
| "encode (PBool b) = JBool b"
| "encode (PInt i) = JNum i"
| "encode (PStr s) = JString s"
| "encode (PList xs) = JArray (map encode xs)"
| "encode (PDict kvs) =
     JObject (map (\<lambda>kv. (key_name (fst kv), snd kv))
                (sort_key fst (map (\<lambda>kv. (fst kv, encode (snd kv))) kvs)))"

text \<open>\<^verbatim>\<open>json.loads\<close> on a document: an object becomes a dictionary with string keys,
  built member by member, so a later member replaces an earlier one of the same name.\<close>

fun decode :: "jsonv \<Rightarrow> pyval" where
  "decode JNull = PNone"
| "decode (JBool b) = PBool b"
| "decode (JNum i) = PInt i"
| "decode (JString s) = PStr s"
| "decode (JArray js) = PList (map decode js)"
| "decode (JObject ms) =
     PDict (fold (\<lambda>m d. dict_set (KStr (fst m)) (snd m) d)
              (map (\<lambda>m. (fst m, decode (snd m))) ms) [])"

text \<open>The text of a file: a JSON document, or text that \<^verbatim>\<open>json.loads\<close> rejects.\<close>

datatype file_text = JsonText jsonv | NotJson

definition json_dumps :: "pyval \<Rightarrow> file_text" where
  "json_dumps obj = JsonText (encode obj)"

fun json_loads :: "file_text \<Rightarrow> error + pyval" where
  "json_loads (JsonText j) = Inr (decode j)"
| "json_loads NotJson = Inl ValueError"

section \<open>The process and its surroundings\<close>

text \<open>
  What the script reads from and writes to outside itself: the options of the
  \<^verbatim>\<open>atlantic_net\<close> section of \<^verbatim>\<open>anet_inventory.ini\<close>, the environment, the parsed
  command line, the file system, the clock, the provider behind \<^verbatim>\<open>AnetManager\<close>, and
  what was printed. \<^verbatim>\<open>trace\<close> records the requests sent to the provider and the calls
  of \<^verbatim>\<open>write_to_cache\<close>, in order. The answers of the client and the results of
  \<^verbatim>\<open>ast.literal_eval\<close> are values of the model, their dictionaries in the form
  described above. A path that is not a regular file is a \<^verbatim>\<open>Directory\<close>. The clock
  is read once in a run and the time of a write is that time.
\<close>

datatype node = Regular real file_text | Directory

datatype event = Fetch string | Show int | Save

datatype printed = Line string | Dump bool pyval

record cli_args =
  arg_list :: bool
  arg_host :: "string option"
  arg_all :: bool
  arg_cloudservers :: bool
  arg_images :: bool
  arg_plans :: bool
  arg_ssh_keys :: bool
  arg_pretty :: bool
  arg_cache_path :: "string option"
  arg_cache_max_age :: "string option"
  arg_force_cache :: bool
  arg_refresh_cache :: bool
  arg_env :: bool
  arg_public_key :: "string option"
  arg_private_key :: "string option"

text \<open>The client of the provider's API: what each of its calls returns or raises.\<close>

record manager =
  all_active_cloudservers :: "error + pyval"
  all_images :: "error + pyval"
  plans :: "error + pyval"
  all_ssh_keys :: "error + pyval"
  show_cloudserver :: "int \<Rightarrow> error + pyval"

record world =
  ini :: "string \<Rightarrow> string option"
  environ :: "string \<Rightarrow> string option"
  argv :: cli_args
  files :: "string \<Rightarrow> node option"
  readable :: "string \<Rightarrow> bool"
  writable :: "string \<Rightarrow> bool"
  clock :: real
  anet :: "string \<Rightarrow> string \<Rightarrow> manager"
  literal_eval :: "string \<Rightarrow> error + pyval"
  trace :: "event list"
  stdout :: "printed list"

text \<open>
  The attributes of the \<^verbatim>\<open>AtlanticNetInventory\<close> object. An attribute that may be
  missing when it is read (\<^verbatim>\<open>hasattr\<close>) is an option. \<^verbatim>\<open>args\<close>,
  \<^verbatim>\<open>cache_filename\<close> and \<^verbatim>\<open>cache_refreshed\<close> are assigned before their first read.
\<close>

record inv_state =
  data :: pyval
  inventory :: pyval
  cache_path :: string
  cache_max_age :: int
  group_variables :: pyval
  public_key :: "string option"
  private_key :: "string option"
  api_token :: "string option"
  args :: cli_args
  cache_filename :: string
  cache_refreshed :: bool
  manager :: "manager option"

text \<open>A step of the process: it returns or raises, and leaves a world behind.\<close>

type_synonym 'a io = "world \<Rightarrow> (error + 'a) \<times> world"

definition ret :: "'a \<Rightarrow> 'a io" where
  "ret x w = (Inr x, w)"

definition raise :: "error \<Rightarrow> 'a io" where
  "raise e w = (Inl e, w)"

definition lift :: "error + 'a \<Rightarrow> 'a io" where
  "lift r w = (r, w)"

definition bind_io :: "'a io \<Rightarrow> ('a \<Rightarrow> 'b io) \<Rightarrow> 'b io" where
  "bind_io m f w = (case m w of (Inl e, w') \<Rightarrow> (Inl e, w') | (Inr x, w') \<Rightarrow> f x w')"

section \<open>Cache management\<close>

definition isfile :: "world \<Rightarrow> string \<Rightarrow> bool" where
  "isfile w path = (case files w path of Some (Regular t text) \<Rightarrow> True | _ \<Rightarrow> False)"

definition getmtime :: "world \<Rightarrow> string \<Rightarrow> real" where
  "getmtime w path = (case files w path of Some (Regular t text) \<Rightarrow> t | _ \<Rightarrow> 0)"

text \<open>\<^verbatim>\<open>getmtime\<close> is only asked for a path that \<^verbatim>\<open>isfile\<close> accepted.\<close>

definition is_cache_valid :: "inv_state \<Rightarrow> world \<Rightarrow> bool" where
  "is_cache_valid self w =
     (if isfile w (cache_filename self) then
        (let mod_time = getmtime w (cache_filename self);
             current_time = clock w
         in if mod_time + real_of_int (cache_max_age self) > current_time then True else False)
      else False)"

text \<open>\<^verbatim>\<open>open(path, 'r')\<close>, \<^verbatim>\<open>read()\<close>, \<^verbatim>\<open>close()\<close>: an \<^verbatim>\<open>IOError\<close> unless the path
  is a regular file the process may read.\<close>

definition read_file :: "world \<Rightarrow> string \<Rightarrow> error + file_text" where
  "read_file w path =
     (case files w path of
        Some (Regular t text) \<Rightarrow> if readable w path then Inr text else Inl IOError
      | _ \<Rightarrow> Inl IOError)"

definition empty_snapshot :: pyval where
  "empty_snapshot = dict_of [(KStr ''data'', dict_of []), (KStr ''inventory'', dict_of [])]"

text \<open>The \<^verbatim>\<open>try\<close> block of \<^verbatim>\<open>load_from_cache\<close> with its handler, which catches
  \<^verbatim>\<open>IOError\<close> and nothing else.\<close>

definition read_snapshot :: "inv_state \<Rightarrow> world \<Rightarrow> error + pyval" where
  "read_snapshot self w =
     (case bind_e (read_file w (cache_filename self)) json_loads of
        Inl e \<Rightarrow> if e = IOError then Inr empty_snapshot else Inl e
      | Inr snapshot \<Rightarrow> Inr snapshot)"

definition load_from_cache :: "inv_state \<Rightarrow> world \<Rightarrow> error + inv_state" where
  "load_from_cache self w =
     bind_e (read_snapshot self w) (\<lambda>snapshot.
     bind_e (getitem snapshot ''data'') (\<lambda>d.
     bind_e (getitem snapshot ''inventory'') (\<lambda>i.
       Inr (self\<lparr>data := d, inventory := i\<rparr>))))"

text \<open>\<^verbatim>\<open>open(path, 'w')\<close>, \<^verbatim>\<open>write\<close>, \<^verbatim>\<open>close\<close>: the file is replaced and its
  modification time is the time of the write.\<close>

definition write_file :: "string \<Rightarrow> file_text \<Rightarrow> unit io" where
  "write_file path text w =
     (if writable w path \<and> files w path \<noteq> Some Directory
      then (Inr (), w\<lparr>files := (files w)(path \<mapsto> Regular (clock w) text)\<rparr>)
      else (Inl IOError, w))"

definition write_to_cache :: "inv_state \<Rightarrow> unit io" where
  "write_to_cache self w =
     (let snapshot = dict_of [(KStr ''data'', data self), (KStr ''inventory'', inventory self)];
          json_data = json_dumps snapshot
      in write_file (cache_filename self) json_data (w\<lparr>trace := trace w @ [Save]\<rparr>))"

section \<open>Script configuration\<close>

text \<open>
  \<^verbatim>\<open>int(text)\<close> on a string, as \<^verbatim>\<open>config.getint\<close> and the \<^verbatim>\<open>--host\<close> view use it:
  surrounding white space is dropped, a sign may come first, and the rest is a
  non-empty run of decimal digits; anything else is a \<^verbatim>\<open>ValueError\<close>.
\<close>

definition is_space :: "char \<Rightarrow> bool" where
  "is_space c = (c \<in> set [CHR '' '', CHR 0x09, CHR 0x0A, CHR 0x0B, CHR 0x0C, CHR 0x0D])"

definition strip :: "string \<Rightarrow> string" where
  "strip s = rev (dropWhile is_space (rev (dropWhile is_space s)))"

definition digit_of :: "char \<Rightarrow> nat option" where
  "digit_of c = (if CHR ''0'' \<le> c \<and> c \<le> CHR ''9'' then Some (of_char c - 48) else None)"

fun digits_value :: "string \<Rightarrow> nat \<Rightarrow> nat option" where
  "digits_value [] acc = Some acc"
| "digits_value (c # cs) acc =
     (case digit_of c of None \<Rightarrow> None | Some d \<Rightarrow> digits_value cs (10 * acc + d))"

definition unsigned_int :: "string \<Rightarrow> error + int" where
  "unsigned_int ds =
     (if ds = [] then Inl ValueError
      else case digits_value ds 0 of None \<Rightarrow> Inl ValueError | Some n \<Rightarrow> Inr (int n))"

definition py_int :: "string \<Rightarrow> error + int" where
  "py_int text =
     (case strip text of
        [] \<Rightarrow> Inl ValueError
      | c # r \<Rightarrow>
          if c = CHR ''-'' then bind_e (unsigned_int r) (\<lambda>n. Inr (- n))
          else if c = CHR ''+'' then unsigned_int r
          else unsigned_int (c # r))"

text \<open>A string option of the command line or a variable of the environment tested
  as a condition: set and not empty.\<close>

definition opt_truthy :: "string option \<Rightarrow> bool" where
  "opt_truthy x = (case x of None \<Rightarrow> False | Some s \<Rightarrow> s \<noteq> [])"

text \<open>The attributes \<^verbatim>\<open>__init__\<close> assigns before it reads any setting.\<close>

definition initial :: "world \<Rightarrow> inv_state" where
  "initial w =
     \<lparr>data = dict_of [], inventory = dict_of [], cache_path = ''.'', cache_max_age = 0,
      group_variables = dict_of [], public_key = None, private_key = None, api_token = None,
      args = argv w, cache_filename = [], cache_refreshed = False, manager = None\<rparr>"

definition read_settings :: "inv_state \<Rightarrow> world \<Rightarrow> error + inv_state" where
  "read_settings self w =
     (let self = (case ini w ''public_key'' of
                    Some v \<Rightarrow> self\<lparr>public_key := Some v\<rparr> | None \<Rightarrow> self);
          self = (case ini w ''private_key'' of
                    Some v \<Rightarrow> self\<lparr>private_key := Some v\<rparr> | None \<Rightarrow> self);
          self = (case ini w ''cache_path'' of
                    Some v \<Rightarrow> self\<lparr>cache_path := v\<rparr> | None \<Rightarrow> self)
      in bind_e (case ini w ''cache_max_age'' of
                   Some v \<Rightarrow> bind_e (py_int v) (\<lambda>n. Inr (self\<lparr>cache_max_age := n\<rparr>))
                 | None \<Rightarrow> Inr self) (\<lambda>self.
         case ini w ''group_variables'' of
           Some v \<Rightarrow> bind_e (literal_eval w v) (\<lambda>g. Inr (self\<lparr>group_variables := g\<rparr>))
         | None \<Rightarrow> Inr self))"

text \<open>Both variables of the environment are stored in the attribute
  \<^verbatim>\<open>api_token\<close>.\<close>

definition read_environment :: "inv_state \<Rightarrow> world \<Rightarrow> inv_state" where
  "read_environment self w =
     (let self = (if opt_truthy (environ w ''ANET_PUBLIC_KEY'')
                  then self\<lparr>api_token := environ w ''ANET_PUBLIC_KEY''\<rparr> else self);
          self = (if opt_truthy (environ w ''ANET_PRIVATE_KEY'')
                  then self\<lparr>api_token := environ w ''ANET_PRIVATE_KEY''\<rparr> else self)
      in self)"

definition read_cli_args :: "inv_state \<Rightarrow> world \<Rightarrow> inv_state" where
  "read_cli_args self w =
     (let self = self\<lparr>args := argv w\<rparr>;
          self = (if opt_truthy (arg_public_key (args self))
                  then self\<lparr>public_key := arg_public_key (args self)\<rparr> else self);
          self = (if opt_truthy (arg_private_key (args self))
                  then self\<lparr>private_key := arg_private_key (args self)\<rparr> else self)
      in if \<not> arg_cloudservers (args self) \<and> \<not> arg_images (args self) \<and>
            \<not> arg_plans (args self) \<and> \<not> arg_ssh_keys (args self) \<and>
            \<not> arg_all (args self) \<and> \<not> opt_truthy (arg_host (args self))
         then self\<lparr>args := (args self)\<lparr>arg_list := True\<rparr>\<rparr>
         else self)"

section \<open>Data management\<close>

text \<open>A request to the provider is recorded in the trace when it is sent.\<close>

definition request :: "event \<Rightarrow> error + pyval \<Rightarrow> pyval io" where
  "request ev answer w = (answer, w\<lparr>trace := trace w @ [ev]\<rparr>)"

text \<open>One of the four blocks of \<^verbatim>\<open>load_from_atlantic_net\<close>:
  \<^verbatim>\<open>self.data[kind] = self.manager.call(); self.cache_refreshed = True\<close>.\<close>

definition fetch :: "string \<Rightarrow> (manager \<Rightarrow> error + pyval) \<Rightarrow> inv_state \<Rightarrow> inv_state io" where
  "fetch kind call self =
     (case manager self of
        None \<Rightarrow> raise AttributeError
      | Some m \<Rightarrow>
          bind_io (request (Fetch kind) (call m)) (\<lambda>answer.
          bind_io (lift (setitem (data self) kind answer)) (\<lambda>d.
          ret (self\<lparr>data := d, cache_refreshed := True\<rparr>))))"

definition load_from_atlantic_net :: "string option \<Rightarrow> inv_state \<Rightarrow> inv_state io" where
  "load_from_atlantic_net resource self w =
     (if arg_force_cache (args self) then ret self w
      else if is_cache_valid self w \<and>
              \<not> (resource = Some ''cloudservers'' \<or> resource = None) then ret self w
      else
        (let resource = (if arg_refresh_cache (args self) then None else resource) in
         bind_io (if resource = Some ''cloudservers'' \<or> resource = None
                  then fetch ''cloudservers'' all_active_cloudservers self else ret self) (\<lambda>self.
         bind_io (if resource = Some ''images'' \<or> resource = None
                  then fetch ''images'' all_images self else ret self) (\<lambda>self.
         bind_io (if resource = Some ''plans'' \<or> resource = None
                  then fetch ''plans'' plans self else ret self) (\<lambda>self.
         (if resource = Some ''ssh_keys'' \<or> resource = None
          then fetch ''ssh_keys'' all_ssh_keys self else ret self)))) w))"

subsection \<open>The inventory builder\<close>

definition empty_group :: pyval where
  "empty_group = dict_of [(KStr ''hosts'', PList []), (KStr ''vars'', dict_of [])]"

text \<open>\<^verbatim>\<open>self.inventory[group]['hosts'].append(dest)\<close>. Only a list has \<^verbatim>\<open>append\<close>.\<close>

definition append_host ::
  "string \<Rightarrow> pyval \<Rightarrow> (pykey \<times> pyval) list \<Rightarrow> error + (pykey \<times> pyval) list" where
  "append_host grp dest invt =
     bind_e (getitem (PDict invt) grp) (\<lambda>g.
     bind_e (getitem g ''hosts'') (\<lambda>hosts.
       case hosts of
         PList hs \<Rightarrow>
           bind_e (setitem g ''hosts'' (PList (hs @ [dest]))) (\<lambda>g'.
           Inr (dict_set (KStr grp) g' invt))
       | _ \<Rightarrow> Inl AttributeError))"

text \<open>The body both group loops share: create the group when the inventory has no
  entry of that name, then append the host.\<close>

definition add_to_group ::
  "string \<Rightarrow> pyval \<Rightarrow> (pykey \<times> pyval) list \<Rightarrow> error + (pykey \<times> pyval) list" where
  "add_to_group grp dest invt =
     append_host grp dest
       (if map_of invt (KStr grp) = None then dict_set (KStr grp) empty_group invt else invt)"

text \<open>The loop over the groups that are always present.\<close>

fun add_to_groups ::
  "string list \<Rightarrow> pyval \<Rightarrow> (pykey \<times> pyval) list \<Rightarrow> error + (pykey \<times> pyval) list" where
  "add_to_groups [] dest invt = Inr invt"
| "add_to_groups (grp # grps) dest invt =
     bind_e (add_to_group grp dest invt) (add_to_groups grps dest)"

text \<open>The loop over the groups that are not always present.\<close>

fun add_image_groups ::
  "pyval list \<Rightarrow> pyval \<Rightarrow> (pykey \<times> pyval) list \<Rightarrow> error + (pykey \<times> pyval) list" where
  "add_image_groups [] dest invt = Inr invt"
| "add_image_groups (grp # grps) dest invt =
     (if truthy grp then
        bind_e (to_safe_val grp) (\<lambda>safe.
        bind_e (str_concat ''image_'' safe) (\<lambda>image.
        bind_e (add_to_group image dest invt) (add_image_groups grps dest)))
      else add_image_groups grps dest invt)"

text \<open>The body of the loop over the cloudservers.\<close>

definition add_cloudserver ::
  "pyval \<Rightarrow> (pykey \<times> pyval) list \<Rightarrow> error + (pykey \<times> pyval) list" where
  "add_cloudserver cloudserver invt =
     bind_e (getitem cloudserver ''vm_ip_address'') (\<lambda>dest.
     bind_e (append_host ''all'' dest invt) (\<lambda>invt.
     bind_e (bind_e (getitem cloudserver ''id'') to_key) (\<lambda>id_key.
     let invt = dict_set id_key (PList [dest]) invt in
     bind_e (bind_e (getitem cloudserver ''name'') to_key) (\<lambda>name_key.
     let invt = dict_set name_key (PList [dest]) invt in
     bind_e (bind_e (bind_e (getitem cloudserver ''vm_image'') to_safe_val)
               (str_concat ''image_'')) (\<lambda>image_group.
     bind_e (bind_e (getitem cloudserver ''vm_plan_name'') (str_concat ''plan_'')) (\<lambda>plan_group.
     bind_e (bind_e (bind_e (getitem cloudserver ''vm_image_display_name'') to_safe_val)
               (str_concat ''distro_'')) (\<lambda>distro_group.
     bind_e (bind_e (getitem cloudserver ''vm_status'') (str_concat ''status_'')) (\<lambda>status_group.
     bind_e (add_to_groups [image_group, plan_group, distro_group, status_group] dest invt) (\<lambda>invt.
     bind_e (getitem cloudserver ''vm_image'') (\<lambda>vm_image.
     bind_e (getitem cloudserver ''vm_image_display_name'') (\<lambda>vm_image_display_name.
     add_image_groups [vm_image, vm_image_display_name] dest invt)))))))))))"

fun add_cloudservers ::
  "pyval list \<Rightarrow> (pykey \<times> pyval) list \<Rightarrow> error + (pykey \<times> pyval) list" where
  "add_cloudservers [] invt = Inr invt"
| "add_cloudservers (cloudserver # rest) invt =
     bind_e (add_cloudserver cloudserver invt) (add_cloudservers rest)"

definition build_inventory :: "inv_state \<Rightarrow> error + inv_state" where
  "build_inventory self =
     (let invt = dict_items
            [(KStr ''all'', dict_of [(KStr ''hosts'', PList []),
                                     (KStr ''vars'', group_variables self)]),
             (KStr ''_meta'', dict_of [(KStr ''hostvars'', dict_of [])])]
      in bind_e (bind_e (getitem (data self) ''cloudservers'') py_iter) (\<lambda>cloudservers.
         bind_e (add_cloudservers cloudservers invt) (\<lambda>invt.
         Inr (self\<lparr>inventory := PDict invt\<rparr>))))"

subsection \<open>The view of one host\<close>

text \<open>\<^verbatim>\<open>cloudserver.items()\<close>: only a dictionary has it.\<close>

fun items :: "pyval \<Rightarrow> error + (pykey \<times> pyval) list" where
  "items (PDict kvs) = Inr kvs"
| "items obj = Inl AttributeError"

text \<open>\<^verbatim>\<open>info['anet_' + k] = v\<close> for every item; a key that is not a string cannot be
  appended to a string.\<close>

fun prefix_items ::
  "(pykey \<times> pyval) list \<Rightarrow> (pykey \<times> pyval) list \<Rightarrow> error + (pykey \<times> pyval) list" where
  "prefix_items [] info = Inr info"
| "prefix_items ((k, v) # kvs) info =
     bind_e (str_concat ''anet_'' (key_value k)) (\<lambda>name.
     prefix_items kvs (dict_set (KStr name) v info))"

definition load_cloudserver_variables_for_host :: "inv_state \<Rightarrow> pyval io" where
  "load_cloudserver_variables_for_host self =
     (case arg_host (args self) of
        None \<Rightarrow> raise TypeError
      | Some h \<Rightarrow>
          bind_io (lift (py_int h)) (\<lambda>host.
          case manager self of
            None \<Rightarrow> raise AttributeError
          | Some m \<Rightarrow>
              bind_io (request (Show host) (show_cloudserver m host)) (\<lambda>cloudserver.
              bind_io (lift (bind_e (items cloudserver) (\<lambda>kvs. prefix_items kvs []))) (\<lambda>info.
              ret (dict_of [(KStr ''cloudserver'', PDict info)])))))"

section \<open>Main execution path\<close>

text \<open>
  \<^verbatim>\<open>__init__\<close> is the whole run of the script. It is cut into its stages here:
  \<^verbatim>\<open>configure\<close> (up to the \<^verbatim>\<open>--env\<close> command), \<^verbatim>\<open>manage_cache\<close>, \<^verbatim>\<open>connect\<close>
  (the creation of the client), \<^verbatim>\<open>pick\<close> (the choice of the data to print) and
  \<^verbatim>\<open>finish\<close>; \<^verbatim>\<open>init\<close> runs them in that order. The command line has been parsed and
  the settings file has been read when the run starts: an exit of \<^verbatim>\<open>parse_args\<close> or an
  error of the parser of the settings file is outside the model.
\<close>

text \<open>Settings, environment and command line, the check of the credentials and the
  \<^verbatim>\<open>--env\<close> command. \<^verbatim>\<open>sys.exit(n)\<close> raises \<^verbatim>\<open>SystemExit\<close>; the message on the
  standard error stream is not modelled.\<close>

definition configure :: "inv_state io" where
  "configure =
     bind_io (\<lambda>w. lift (read_settings (initial w) w) w) (\<lambda>self.
     bind_io (\<lambda>w. ret (read_cli_args (read_environment self w) w) w) (\<lambda>self.
       case (public_key self, private_key self) of
         (Some pub, Some priv) \<Rightarrow>
           if arg_env (args self)
           then (\<lambda>w. (Inl (SystemExit 0),
                   w\<lparr>stdout := stdout w @ [Line (''ANET_PUBLIC_KEY='' @ pub),
                                            Line (''ANET_PRIVATE_KEY='' @ priv)]\<rparr>))
           else ret self
       | _ \<Rightarrow> raise (SystemExit (- 1))))"

text \<open>The condition of the first \<^verbatim>\<open>if\<close> of the cache management is the attribute
  \<^verbatim>\<open>self.is_cache_valid\<close>, a bound method, not a call of it. The truth value of a
  method object is true.\<close>

definition method_truth :: "(inv_state \<Rightarrow> world \<Rightarrow> bool) \<Rightarrow> bool" where
  "method_truth m = True"

definition manage_cache :: "inv_state \<Rightarrow> inv_state io" where
  "manage_cache self =
     (let self = self\<lparr>cache_filename := cache_path self @ ''/ansible-atlantic_net.cache'',
                      cache_refreshed := False\<rparr>
      in if method_truth is_cache_valid then
           bind_io (\<lambda>w. lift (load_from_cache self w) w) (\<lambda>self.
           bind_io (lift (py_len (data self))) (\<lambda>n.
             if n = 0 then
               (if arg_force_cache (args self) then raise (SystemExit (- 1)) else ret self)
             else ret self))
         else ret self)"

text \<open>\<^verbatim>\<open>self.manager = AnetManager(self.public_key, self.private_key, "2010-12-30")\<close>.\<close>

definition connect :: "inv_state \<Rightarrow> inv_state io" where
  "connect self w =
     (case (public_key self, private_key self) of
        (Some pub, Some priv) \<Rightarrow> ret (self\<lparr>manager := Some (anet w pub priv)\<rparr>) w
      | _ \<Rightarrow> raise AttributeError w)"

text \<open>The choice of the data to print, by the command of the command line.\<close>

definition one_kind :: "string \<Rightarrow> inv_state \<Rightarrow> (inv_state \<times> pyval) io" where
  "one_kind kind self =
     bind_io (load_from_atlantic_net (Some kind) self) (\<lambda>self.
     bind_io (lift (getitem (data self) kind)) (\<lambda>v.
     ret (self, dict_of [(KStr kind, v)])))"

definition pick :: "inv_state \<Rightarrow> (inv_state \<times> pyval) io" where
  "pick self =
     (if arg_cloudservers (args self) then one_kind ''cloudservers'' self
      else if arg_images (args self) then one_kind ''images'' self
      else if arg_plans (args self) then one_kind ''plans'' self
      else if arg_ssh_keys (args self) then one_kind ''ssh_keys'' self
      else if arg_all (args self) then
        bind_io (load_from_atlantic_net None self) (\<lambda>self. ret (self, data self))
      else if opt_truthy (arg_host (args self)) then
        bind_io (load_cloudserver_variables_for_host self) (\<lambda>json_data. ret (self, json_data))
      else
        bind_io (load_from_atlantic_net (Some ''cloudservers'') self) (\<lambda>self.
        bind_io (lift (build_inventory self)) (\<lambda>self.
        ret (self, inventory self))))"

text \<open>The end of the run: the cache is written when a block of
  \<^verbatim>\<open>load_from_atlantic_net\<close> has set \<^verbatim>\<open>cache_refreshed\<close>, and the data are printed.\<close>

definition emit :: "bool \<Rightarrow> pyval \<Rightarrow> unit io" where
  "emit pretty json_data w = (Inr (), w\<lparr>stdout := stdout w @ [Dump pretty json_data]\<rparr>)"

definition finish :: "inv_state \<Rightarrow> pyval \<Rightarrow> unit io" where
  "finish self json_data =
     bind_io (if cache_refreshed self then write_to_cache self else ret ()) (\<lambda>u.
     emit (arg_pretty (args self)) json_data)"

text \<open>\<^verbatim>\<open>__init__\<close>.\<close>

definition init :: "unit io" where
  "init =
     bind_io configure (\<lambda>self.
     bind_io (manage_cache self) (\<lambda>self.
     bind_io (connect self) (\<lambda>self.
     bind_io (pick self) (\<lambda>r.
     finish (fst r) (snd r)))))"

section \<open>Notions used in the statements and proofs\<close>

text \<open>\<^verbatim>\<open>save(snapshot)\<close> followed by \<^verbatim>\<open>load()\<close>: the cache is written from the
  attributes of the object and read back; the result is the pair of \<^verbatim>\<open>data\<close> and
  \<^verbatim>\<open>inventory\<close> that the load installs.\<close>

definition save_then_load :: "inv_state \<Rightarrow> world \<Rightarrow> error + pyval \<times> pyval" where
  "save_then_load self w =
     (case write_to_cache self w of
        (Inl e, w') \<Rightarrow> Inl e
      | (Inr u, w') \<Rightarrow>
          bind_e (load_from_cache self w') (\<lambda>self'. Inr (data self', inventory self')))"

text \<open>Every key of every dictionary inside a value is a string.\<close>

fun str_keyed :: "pyval \<Rightarrow> bool" where
  "str_keyed (PList xs) = list_all str_keyed xs"
| "str_keyed (PDict kvs) =
     list_all (\<lambda>kv. (case fst kv of KStr s \<Rightarrow> True | _ \<Rightarrow> False) \<and> str_keyed (snd kv)) kvs"
| "str_keyed v = True"

text \<open>Every dictionary inside a value is in the form the model keeps dictionaries in:
  its keys strictly ascending.\<close>

fun canonical :: "pyval \<Rightarrow> bool" where
  "canonical (PList xs) = list_all canonical xs"
| "canonical (PDict kvs) =
     (sorted_wrt (<) (map fst kvs) \<and> list_all (\<lambda>kv. canonical (snd kv)) kvs)"
| "canonical v = True"

text \<open>What a run of the script adds to the trace.\<close>

definition events_of_run :: "world \<Rightarrow> event list" where
  "events_of_run w = drop (length (trace w)) (trace (snd (init w)))"

text \<open>A resource kind was fetched: the trace holds a request for one.\<close>

fun is_fetch :: "event \<Rightarrow> bool" where
  "is_fetch (Fetch kind) = True"
| "is_fetch ev = False"

definition fetched :: "event list \<Rightarrow> bool" where
  "fetched evs = list_ex is_fetch evs"

text \<open>What a call of \<^verbatim>\<open>load_from_atlantic_net\<close> may do: it sends requests for
  resource kinds and nothing else reaches the world; when it returns, the arguments are
  the same and \<^verbatim>\<open>cache_refreshed\<close> has been set exactly if a request was sent.\<close>

definition refresh_spec :: "inv_state \<Rightarrow> world \<Rightarrow> (error + inv_state) \<times> world \<Rightarrow> bool" where
  "refresh_spec self w out =
     (\<exists>evs. snd out = w\<lparr>trace := trace w @ evs\<rparr> \<and> list_all is_fetch evs \<and>
        (case fst out of
           Inl e \<Rightarrow> True
         | Inr self' \<Rightarrow> args self' = args self \<and>
             cache_refreshed self' = (cache_refreshed self \<or> evs \<noteq> [])))"

text \<open>What the choice of the data to print may do: requests are sent, the cache is not
  written, no resource kind is fetched under \<^verbatim>\<open>--force-cache\<close>, and
  \<^verbatim>\<open>cache_refreshed\<close> is set exactly if a resource kind was fetched.\<close>

definition pick_spec ::
  "inv_state \<Rightarrow> world \<Rightarrow> (error + inv_state \<times> pyval) \<times> world \<Rightarrow> bool" where
  "pick_spec self w out =
     (\<exists>evs. snd out = w\<lparr>trace := trace w @ evs\<rparr> \<and> Save \<notin> set evs \<and>
        (arg_force_cache (args self) \<longrightarrow> \<not> fetched evs) \<and>
        (case fst out of
           Inl e \<Rightarrow> True
         | Inr r \<Rightarrow> cache_refreshed (fst r) = (cache_refreshed self \<or> fetched evs)))"

subsection \<open>Concrete surroundings for the examples\<close>

definition no_args :: cli_args where
  "no_args =
     \<lparr>arg_list = False, arg_host = None, arg_all = False, arg_cloudservers = False,
      arg_images = False, arg_plans = False, arg_ssh_keys = False, arg_pretty = False,
      arg_cache_path = None, arg_cache_max_age = None, arg_force_cache = False,
      arg_refresh_cache = False, arg_env = False, arg_public_key = None,
      arg_private_key = None\<rparr>"

text \<open>An account without resources.\<close>

definition empty_account :: manager where
  "empty_account =
     \<lparr>all_active_cloudservers = Inr (PList []), all_images = Inr (PList []),
      plans = Inr (PList []), all_ssh_keys = Inr (PList []),
      show_cloudserver = (\<lambda>host. Inl ApiError)\<rparr>"

text \<open>No settings file, an empty environment, no arguments, no files, time 0.\<close>

definition bare_world :: world where
  "bare_world =
     \<lparr>ini = (\<lambda>name. None), environ = (\<lambda>name. None), argv = no_args,
      files = (\<lambda>path. None), readable = (\<lambda>path. True), writable = (\<lambda>path. True),
      clock = 0, anet = (\<lambda>pub priv. empty_account),
      literal_eval = (\<lambda>text. Inl ValueError), trace = [], stdout = []\<rparr>"

text \<open>The credentials are in the settings file.\<close>

definition account_world :: world where
  "account_world =
     bare_world\<lparr>ini := (\<lambda>name. if name = ''public_key'' then Some ''pub''
                           else if name = ''private_key'' then Some ''priv'' else None)\<rparr>"

text \<open>The credentials are in the environment only.\<close>

definition environment_world :: world where
  "environment_world =
     bare_world\<lparr>environ := (\<lambda>name. if name = ''ANET_PUBLIC_KEY'' then Some ''envpub''
                               else if name = ''ANET_PRIVATE_KEY'' then Some ''envpriv''
                               else None)\<rparr>"

text \<open>A snapshot file holding an empty list of images and an empty inventory.\<close>

definition images_snapshot :: jsonv where
  "images_snapshot =
     JObject [(''data'', JObject [(''images'', JArray [])]), (''inventory'', JObject [])]"

text \<open>The snapshot was written at time 100; it is now time 200. Without a
  \<^verbatim>\<open>cache_max_age\<close> in the settings the cache has expired.\<close>

definition stale_cache_world :: world where
  "stale_cache_world =
     account_world\<lparr>files := (\<lambda>path. if path = ''./ansible-atlantic_net.cache''
                                 then Some (Regular 100 (JsonText images_snapshot)) else None),
                   clock := 200\<rparr>"

text \<open>The same with \<^verbatim>\<open>cache_max_age = 3600\<close> in the settings, so that the cache is
  valid, and the command line \<^verbatim>\<open>--images --refresh-cache\<close>.\<close>

definition fresh_cache_world :: world where
  "fresh_cache_world =
     stale_cache_world\<lparr>
       ini := (\<lambda>name. if name = ''public_key'' then Some ''pub''
                      else if name = ''private_key'' then Some ''priv''
                      else if name = ''cache_max_age'' then Some ''3600'' else None),
       argv := no_args\<lparr>arg_images := True, arg_refresh_cache := True\<rparr>\<rparr>"

section \<open>Facts about keys, dictionaries and the JSON library\<close>

lemma pykey_less_simps:
  "KStr s < KStr t \<longleftrightarrow> s < t"
  "KInt i < KInt j \<longleftrightarrow> i < j"
  "KInt i < KStr t"
  "KNone < KInt i"
  "KNone < KStr t"
  "\<not> KStr s < KInt j"
  "\<not> KStr s < KNone"
  "\<not> KInt i < KNone"
  "\<not> KNone < KNone"
  by (auto simp add: less_pykey_def)





text \<open>\<^verbatim>\<open>d[k] = v\<close> keeps a dictionary in ascending order of its keys.\<close>

lemma dict_set_member:
  "p \<in> set (dict_set k v kvs) \<Longrightarrow> p = (k, v) \<or> p \<in> set kvs"
  by (induction kvs) (auto split: if_splits)

lemma dict_set_sorted:
  "sorted_wrt (<) (map fst kvs) \<Longrightarrow> sorted_wrt (<) (map fst (dict_set k v kvs))"
proof (induction kvs)
  case Nil
  then show ?case by simp
next
  case (Cons kv kvs)
  obtain a b where kv: "kv = (a, b)"
    by (cases kv)
  show ?case
  proof (cases "k = a \<or> k < a")
    case True
    with Cons.prems kv show ?thesis
      by auto
  next
    case False
    then have above: "a < k"
      by auto
    have "a < fst p" if "p \<in> set (dict_set k v kvs)" for p
      using dict_set_member [OF that] above Cons.prems kv by auto
    with Cons False kv show ?thesis
      by auto
  qed
qed

lemma dict_set_all:
  "list_all P kvs \<Longrightarrow> P (k, v) \<Longrightarrow> list_all P (dict_set k v kvs)"
  by (induction kvs) auto

lemma fold_dict_set_invariant:
  assumes "sorted_wrt (<) (map fst acc)" and "list_all P acc"
    and "list_all (\<lambda>m. P (KStr (fst m), snd m)) ms"
  shows "sorted_wrt (<) (map fst (fold (\<lambda>m d. dict_set (KStr (fst m)) (snd m) d) ms acc)) \<and>
         list_all P (fold (\<lambda>m d. dict_set (KStr (fst m)) (snd m) d) ms acc)"
  using assms
  by (induction ms arbitrary: acc) (simp_all add: dict_set_sorted dict_set_all)

text \<open>What \<^verbatim>\<open>json.loads\<close> returns has dictionaries in ascending order of their
  keys, and every key is a string.\<close>

lemma decode_stable: "canonical (decode j) \<and> str_keyed (decode j)"
proof (induction j)
  case (JArray js)
  then show ?case
    by (simp add: list_all_iff)
next
  case (JObject ms)
  let ?P = "\<lambda>kv. (case fst kv of KStr s \<Rightarrow> True | _ \<Rightarrow> False) \<and> canonical (snd kv) \<and> str_keyed (snd kv)"
  have "list_all (\<lambda>m. ?P (KStr (fst m), snd m)) (map (\<lambda>m. (fst m, decode (snd m))) ms)"
  proof -
    have "canonical (decode (snd m)) \<and> str_keyed (decode (snd m))" if "m \<in> set ms" for m
    proof -
      have "snd m \<in> Basic_BNFs.snds m"
        by (cases m) simp
      with JObject.IH that show ?thesis by blast
    qed
    then show ?thesis
      by (simp add: list_all_iff)
  qed
  with fold_dict_set_invariant [of "[]" ?P "map (\<lambda>m. (fst m, decode (snd m))) ms"]
  have "sorted_wrt (<) (map fst (fold (\<lambda>m d. dict_set (KStr (fst m)) (snd m) d)
            (map (\<lambda>m. (fst m, decode (snd m))) ms) [])) \<and>
        list_all ?P (fold (\<lambda>m d. dict_set (KStr (fst m)) (snd m) d)
            (map (\<lambda>m. (fst m, decode (snd m))) ms) [])"
    by simp
  then show ?case
    by (simp add: list_all_iff)
qed simp_all

section \<open>Facts about the refresh and the run\<close>

lemma refresh_spec_ret: "refresh_spec self w (ret self w)"
  unfolding refresh_spec_def ret_def
  by (rule exI [of _ "[]"]) simp

lemma refresh_spec_fetch: "refresh_spec self w (fetch kind call self w)"
proof (cases "manager self")
  case None
  then show ?thesis
    unfolding refresh_spec_def fetch_def raise_def
    by (intro exI [of _ "[]"]) simp
next
  case (Some m)
  then show ?thesis
    unfolding refresh_spec_def fetch_def
    by (intro exI [of _ "[Fetch kind]"])
      (simp add: bind_io_def request_def lift_def ret_def split: sum.splits)
qed

lemma refresh_spec_bind:
  assumes first: "refresh_spec self w (m w)"
    and rest: "\<And>s1 w1. refresh_spec s1 w1 (f s1 w1)"
  shows "refresh_spec self w (bind_io m f w)"
proof (cases "m w")
  case (Pair r w1)
  show ?thesis
  proof (cases r)
    case (Inl e)
    with Pair first show ?thesis
      by (simp add: bind_io_def refresh_spec_def)
  next
    case (Inr s1)
    from first Pair Inr obtain evs1 where
      w1: "w1 = w\<lparr>trace := trace w @ evs1\<rparr>" and f1: "list_all is_fetch evs1"
      and s1: "args s1 = args self" "cache_refreshed s1 = (cache_refreshed self \<or> evs1 \<noteq> [])"
      by (auto simp add: refresh_spec_def)
    from rest [of s1 w1] obtain evs2 where
      w2: "snd (f s1 w1) = w1\<lparr>trace := trace w1 @ evs2\<rparr>" and f2: "list_all is_fetch evs2"
      and s2: "case fst (f s1 w1) of Inl e \<Rightarrow> True
        | Inr self' \<Rightarrow> args self' = args s1 \<and>
            cache_refreshed self' = (cache_refreshed s1 \<or> evs2 \<noteq> [])"
      by (auto simp add: refresh_spec_def)
    have "bind_io m f w = f s1 w1"
      using Pair Inr by (simp add: bind_io_def)
    moreover have "snd (f s1 w1) = w\<lparr>trace := trace w @ (evs1 @ evs2)\<rparr>"
      using w1 w2 by simp
    moreover have "list_all is_fetch (evs1 @ evs2)"
      using f1 f2 by simp
    moreover have "case fst (f s1 w1) of Inl e \<Rightarrow> True
        | Inr self' \<Rightarrow> args self' = args self \<and>
            cache_refreshed self' = (cache_refreshed self \<or> evs1 @ evs2 \<noteq> [])"
      using s1 s2 by (auto split: sum.splits)
    ultimately show ?thesis
      unfolding refresh_spec_def by (intro exI [of _ "evs1 @ evs2"]) simp
  qed
qed

lemma refresh_spec_block:
  "refresh_spec self w ((if c then fetch kind call self else ret self) w)"
  by (simp add: refresh_spec_fetch refresh_spec_ret)

lemma refresh_spec_load: "refresh_spec self w (load_from_atlantic_net resource self w)"
  unfolding load_from_atlantic_net_def Let_def
  by (simp add: refresh_spec_bind refresh_spec_block refresh_spec_ret)

lemma all_fetch_no_save: "list_all is_fetch evs \<Longrightarrow> Save \<notin> set evs"
  by (induction evs) auto

lemma all_fetch_fetched: "list_all is_fetch evs \<Longrightarrow> fetched evs = (evs \<noteq> [])"
  by (cases evs) (simp_all add: fetched_def)

lemma load_forced:
  "arg_force_cache (args self) \<Longrightarrow> load_from_atlantic_net resource self w = (Inr self, w)"
  by (simp add: load_from_atlantic_net_def ret_def)

text \<open>What a call of \<^verbatim>\<open>load_from_atlantic_net\<close> does to the world and to the flag.\<close>

lemma load_events:
  "\<exists>evs r. load_from_atlantic_net resource self w = (r, w\<lparr>trace := trace w @ evs\<rparr>) \<and>
     list_all is_fetch evs \<and> (arg_force_cache (args self) \<longrightarrow> evs = []) \<and>
     (\<forall>s. r = Inr s \<longrightarrow> cache_refreshed s = (cache_refreshed self \<or> evs \<noteq> []))"
proof -
  obtain r w1 where out: "load_from_atlantic_net resource self w = (r, w1)"
    by (cases "load_from_atlantic_net resource self w")
  from refresh_spec_load [of self w resource] out obtain evs where
    w1: "w1 = w\<lparr>trace := trace w @ evs\<rparr>" and fs: "list_all is_fetch evs"
    and st: "case r of Inl e \<Rightarrow> True
      | Inr self' \<Rightarrow> args self' = args self \<and>
          cache_refreshed self' = (cache_refreshed self \<or> evs \<noteq> [])"
    by (auto simp add: refresh_spec_def)
  have "evs = []" if "arg_force_cache (args self)"
  proof -
    from that out have "w1 = w"
      by (simp add: load_forced)
    with w1 have "trace w = trace (w\<lparr>trace := trace w @ evs\<rparr>)"
      by simp
    then show ?thesis by simp
  qed
  moreover have "cache_refreshed s = (cache_refreshed self \<or> evs \<noteq> [])" if "r = Inr s" for s
    using st that by simp
  ultimately show ?thesis
    using out w1 fs by blast
qed

lemma pick_spec_after_load:
  assumes cont: "\<And>s w1. \<exists>res. k s w1 = (res, w1) \<and>
      (\<forall>r. res = Inr r \<longrightarrow> cache_refreshed (fst r) = cache_refreshed s)"
  shows "pick_spec self w (bind_io (load_from_atlantic_net resource self) k w)"
proof -
  from load_events [of resource self w] obtain evs r where
    out: "load_from_atlantic_net resource self w = (r, w\<lparr>trace := trace w @ evs\<rparr>)"
    and fs: "list_all is_fetch evs"
    and force: "arg_force_cache (args self) \<longrightarrow> evs = []"
    and st: "\<forall>s. r = Inr s \<longrightarrow> cache_refreshed s = (cache_refreshed self \<or> evs \<noteq> [])"
    by blast
  have quiet: "Save \<notin> set evs" and some: "fetched evs = (evs \<noteq> [])"
    using fs by (simp_all add: all_fetch_no_save all_fetch_fetched)
  show ?thesis
  proof (cases r)
    case (Inl e)
    with out have "bind_io (load_from_atlantic_net resource self) k w
        = (Inl e, w\<lparr>trace := trace w @ evs\<rparr>)"
      by (simp add: bind_io_def)
    with quiet some force show ?thesis
      unfolding pick_spec_def by (intro exI [of _ evs]) (auto simp add: fetched_def)
  next
    case (Inr s)
    with st have flag: "cache_refreshed s = (cache_refreshed self \<or> evs \<noteq> [])"
      by simp
    from cont [of s "w\<lparr>trace := trace w @ evs\<rparr>"] obtain res where
      res: "k s (w\<lparr>trace := trace w @ evs\<rparr>) = (res, w\<lparr>trace := trace w @ evs\<rparr>)"
      and keep: "\<forall>r. res = Inr r \<longrightarrow> cache_refreshed (fst r) = cache_refreshed s"
      by blast
    from out Inr res have "bind_io (load_from_atlantic_net resource self) k w
        = (res, w\<lparr>trace := trace w @ evs\<rparr>)"
      by (simp add: bind_io_def)
    with quiet some force flag keep show ?thesis
      unfolding pick_spec_def by (intro exI [of _ evs]) (auto simp add: fetched_def split: sum.splits)
  qed
qed

lemma one_kind_spec: "pick_spec self w (one_kind kind self w)"
  unfolding one_kind_def
  by (rule pick_spec_after_load) (simp add: bind_io_def lift_def ret_def split: sum.splits)

lemma all_kinds_spec:
  "pick_spec self w (bind_io (load_from_atlantic_net None self) (\<lambda>self. ret (self, data self)) w)"
  by (rule pick_spec_after_load) (simp add: ret_def)

lemma build_inventory_keeps:
  "build_inventory self = Inr s \<Longrightarrow> cache_refreshed s = cache_refreshed self"
  by (auto simp add: build_inventory_def bind_e_def Let_def split: sum.splits)

lemma list_spec:
  "pick_spec self w
     (bind_io (load_from_atlantic_net (Some ''cloudservers'') self) (\<lambda>self.
      bind_io (lift (build_inventory self)) (\<lambda>self. ret (self, inventory self))) w)"
  by (rule pick_spec_after_load)
    (simp add: bind_io_def lift_def ret_def build_inventory_keeps split: sum.splits)

lemma host_spec:
  "pick_spec self w
     (bind_io (load_cloudserver_variables_for_host self) (\<lambda>json_data. ret (self, json_data)) w)"
proof -
  have "\<exists>evs. snd (load_cloudserver_variables_for_host self w) = w\<lparr>trace := trace w @ evs\<rparr> \<and>
      Save \<notin> set evs \<and> \<not> fetched evs"
  proof (cases "\<exists>h host m. arg_host (args self) = Some h \<and> py_int h = Inr host \<and> manager self = Some m")
    case True
    then obtain h host m where
      "arg_host (args self) = Some h" "py_int h = Inr host" "manager self = Some m"
      by blast
    then show ?thesis
      by (intro exI [of _ "[Show host]"])
        (simp add: load_cloudserver_variables_for_host_def bind_io_def lift_def ret_def
          request_def fetched_def split: sum.splits)
  next
    case False
    then show ?thesis
      by (intro exI [of _ "[]"])
        (auto simp add: load_cloudserver_variables_for_host_def bind_io_def lift_def raise_def
          fetched_def split: option.splits sum.splits)
  qed
  then obtain evs where
    "snd (load_cloudserver_variables_for_host self w) = w\<lparr>trace := trace w @ evs\<rparr>"
    "Save \<notin> set evs" "\<not> fetched evs"
    by blast
  then show ?thesis
    unfolding pick_spec_def
    by (intro exI [of _ evs])
      (cases "load_cloudserver_variables_for_host self w",
        auto simp add: bind_io_def ret_def split: sum.splits)
qed

lemma pick_spec_holds: "pick_spec self w (pick self w)"
  unfolding pick_def
  by (simp add: one_kind_spec all_kinds_spec list_spec host_spec)


lemma read_cli_args_force:
  "arg_force_cache (args (read_cli_args self w)) = arg_force_cache (argv w)"
  by (simp add: read_cli_args_def Let_def)

lemma configure_world:
  "trace (snd (configure w)) = trace w \<and> files (snd (configure w)) = files w"
  by (simp add: configure_def bind_io_def lift_def ret_def raise_def
      split: sum.splits option.splits)

lemma configure_ok:
  "configure w = (Inr self, w') \<Longrightarrow> w' = w \<and> arg_force_cache (args self) = arg_force_cache (argv w)"
  by (auto simp add: configure_def bind_io_def lift_def ret_def raise_def read_cli_args_force
      split: sum.splits option.splits if_splits)

lemma load_from_cache_keeps:
  "load_from_cache self w = Inr s \<Longrightarrow>
   args s = args self \<and> cache_refreshed s = cache_refreshed self"
  by (auto simp add: load_from_cache_def bind_e_def split: sum.splits)

lemma manage_cache_world: "snd (manage_cache self w) = w"
  by (simp add: manage_cache_def Let_def method_truth_def bind_io_def lift_def ret_def raise_def
      split: sum.splits)

lemma manage_cache_ok:
  "manage_cache self w = (Inr s, w') \<Longrightarrow> args s = args self \<and> \<not> cache_refreshed s"
  by (auto simp add: manage_cache_def Let_def method_truth_def bind_io_def lift_def ret_def
      raise_def split: sum.splits if_splits dest!: load_from_cache_keeps)

lemma connect_world: "snd (connect self w) = w"
  by (simp add: connect_def ret_def raise_def split: option.splits)

lemma connect_ok:
  "connect self w = (Inr s, w') \<Longrightarrow> args s = args self \<and> cache_refreshed s = cache_refreshed self"
  by (auto simp add: connect_def ret_def raise_def split: option.splits)

lemma finish_refreshed:
  "cache_refreshed self \<Longrightarrow> trace (snd (finish self json_data w)) = trace w @ [Save]"
  by (simp add: finish_def bind_io_def write_to_cache_def write_file_def emit_def Let_def)

lemma finish_not_refreshed:
  "\<not> cache_refreshed self \<Longrightarrow>
   trace (snd (finish self json_data w)) = trace w \<and> files (snd (finish self json_data w)) = files w"
  by (simp add: finish_def bind_io_def ret_def emit_def)

text \<open>The two ways a run can go: it never calls \<^verbatim>\<open>write_to_cache\<close> and leaves the
  files alone, or a resource kind was fetched and the last event is the call of
  \<^verbatim>\<open>write_to_cache\<close>.\<close>

lemma init_outcome:
  "\<exists>evs. Save \<notin> set evs \<and> (arg_force_cache (argv w) \<longrightarrow> \<not> fetched evs) \<and>
     (trace (snd (init w)) = trace w @ evs \<and> files (snd (init w)) = files w \<and>
        (fst (init w) = Inr () \<longrightarrow> \<not> fetched evs)
      \<or> fetched evs \<and> trace (snd (init w)) = trace w @ evs @ [Save])"
proof -
  have stop: ?thesis if "trace (snd (init w)) = trace w" "files (snd (init w)) = files w"
    "fst (init w) \<noteq> Inr ()"
    using that by (intro exI [of _ "[]"]) (simp add: fetched_def)
  obtain r0 w0 where c: "configure w = (r0, w0)"
    by (cases "configure w")
  show ?thesis
  proof (cases r0)
    case (Inl e)
    with c have "init w = (Inl e, w0)"
      by (simp add: init_def bind_io_def)
    moreover from c configure_world [of w] have "trace w0 = trace w" "files w0 = files w"
      by simp_all
    ultimately show ?thesis
      by (intro stop) simp_all
  next
    case (Inr s0)
    with c configure_ok have w0: "w0 = w" and f0: "arg_force_cache (args s0) = arg_force_cache (argv w)"
      by blast+
    obtain r1 where m: "manage_cache s0 w = (r1, w)"
      using manage_cache_world [of s0 w] by (cases "manage_cache s0 w") simp
    show ?thesis
    proof (cases r1)
      case (Inl e)
      with c Inr w0 m have "init w = (Inl e, w)"
        by (simp add: init_def bind_io_def)
      then show ?thesis
        by (intro stop) simp_all
    next
      case s1: (Inr s1)
      with m manage_cache_ok have a1: "args s1 = args s0" and c1: "\<not> cache_refreshed s1"
        by blast+
      obtain r2 where n: "connect s1 w = (r2, w)"
        using connect_world [of s1 w] by (cases "connect s1 w") simp
      show ?thesis
      proof (cases r2)
        case (Inl e)
        with c Inr w0 m s1 n have "init w = (Inl e, w)"
          by (simp add: init_def bind_io_def)
        then show ?thesis
          by (intro stop) simp_all
      next
        case s2: (Inr s2)
        with n connect_ok have a2: "args s2 = args s1" and c2: "cache_refreshed s2 = cache_refreshed s1"
          by blast+
        obtain r3 w3 where p: "pick s2 w = (r3, w3)"
          by (cases "pick s2 w")
        from pick_spec_holds [of s2 w] p obtain evs where
          w3: "w3 = w\<lparr>trace := trace w @ evs\<rparr>" and quiet: "Save \<notin> set evs"
          and forced: "arg_force_cache (args s2) \<longrightarrow> \<not> fetched evs"
          and flag: "case r3 of Inl e \<Rightarrow> True
            | Inr r \<Rightarrow> cache_refreshed (fst r) = (cache_refreshed s2 \<or> fetched evs)"
          by (auto simp add: pick_spec_def)
        from forced a2 a1 f0 have forced': "arg_force_cache (argv w) \<longrightarrow> \<not> fetched evs"
          by simp
        show ?thesis
        proof (cases r3)
          case (Inl e)
          with c Inr w0 m s1 n s2 p have "init w = (Inl e, w3)"
            by (simp add: init_def bind_io_def)
          with w3 quiet forced' show ?thesis
            by (intro exI [of _ evs]) simp
        next
          case s3: (Inr r)
          with flag c2 c1 have refreshed: "cache_refreshed (fst r) = fetched evs"
            by simp
          from c Inr w0 m s1 n s2 p s3 have run: "init w = finish (fst r) (snd r) w3"
            by (simp add: init_def bind_io_def)
          show ?thesis
          proof (cases "fetched evs")
            case True
            with refreshed finish_refreshed [of "fst r" "snd r" w3] run w3
            have "trace (snd (init w)) = trace w @ evs @ [Save]"
              by simp
            with True quiet forced' show ?thesis
              by (intro exI [of _ evs]) simp
          next
            case False
            with refreshed finish_not_refreshed [of "fst r" "snd r" w3] run w3
            have "trace (snd (init w)) = trace w @ evs" "files (snd (init w)) = files w"
              by simp_all
            with False quiet show ?thesis
              by (intro exI [of _ evs]) simp
          qed
        qed
      qed
    qed
  qed
qed

section \<open>Evaluation of the examples\<close>

lemmas run_defs = init_def configure_def manage_cache_def connect_def pick_def one_kind_def
  finish_def emit_def bind_io_def lift_def ret_def raise_def read_settings_def
  read_environment_def read_cli_args_def initial_def bind_e_def opt_truthy_def
  method_truth_def load_from_cache_def read_snapshot_def read_file_def empty_snapshot_def
  load_from_atlantic_net_def is_cache_valid_def isfile_def getmtime_def fetch_def request_def
  build_inventory_def write_to_cache_def write_file_def json_dumps_def
  dict_of_def dict_items_def Let_def

lemmas world_defs = fresh_cache_world_def stale_cache_world_def account_world_def
  environment_world_def bare_world_def no_args_def empty_account_def images_snapshot_def

lemmas int_defs = py_int_def strip_def is_space_def unsigned_int_def digit_of_def

text \<open>The inventory built from the one cloudserver of the end-to-end scenario, as the
  sorted association list the model keeps.\<close>

lemma web1_inventory:
  "build_inventory
     (self\<lparr>data := dict_of [(KStr ''cloudservers'', PList [dict_of
        [(KStr ''id'', PInt 1), (KStr ''name'', PStr ''web1''),
         (KStr ''vm_ip_address'', PStr ''10.0.0.1''), (KStr ''vm_image'', PStr ''img-1''),
         (KStr ''vm_image_display_name'', PStr ''Ubuntu 20.04''),
         (KStr ''vm_plan_name'', PStr ''small''), (KStr ''vm_status'', PStr ''active'')]])],
       group_variables := dict_of []\<rparr>)
   = Inr (self\<lparr>data := dict_of [(KStr ''cloudservers'', PList [dict_of
        [(KStr ''id'', PInt 1), (KStr ''name'', PStr ''web1''),
         (KStr ''vm_ip_address'', PStr ''10.0.0.1''), (KStr ''vm_image'', PStr ''img-1''),
         (KStr ''vm_image_display_name'', PStr ''Ubuntu 20.04''),
         (KStr ''vm_plan_name'', PStr ''small''), (KStr ''vm_status'', PStr ''active'')]])],
       group_variables := dict_of [],
       inventory := PDict
        [(KInt 1, PList [PStr ''10.0.0.1'']),
         (KStr ''_meta'', PDict [(KStr ''hostvars'', PDict [])]),
         (KStr ''all'',
            PDict [(KStr ''hosts'', PList [PStr ''10.0.0.1'']), (KStr ''vars'', PDict [])]),
         (KStr ''distro_Ubuntu_20.04'',
            PDict [(KStr ''hosts'', PList [PStr ''10.0.0.1'']), (KStr ''vars'', PDict [])]),
         (KStr ''image_Ubuntu_20.04'',
            PDict [(KStr ''hosts'', PList [PStr ''10.0.0.1'']), (KStr ''vars'', PDict [])]),
         (KStr ''image_img-1'',
            PDict [(KStr ''hosts'', PList [PStr ''10.0.0.1'', PStr ''10.0.0.1'']),
                   (KStr ''vars'', PDict [])]),
         (KStr ''plan_small'',
            PDict [(KStr ''hosts'', PList [PStr ''10.0.0.1'']), (KStr ''vars'', PDict [])]),
         (KStr ''status_active'',
            PDict [(KStr ''hosts'', PList [PStr ''10.0.0.1'']), (KStr ''vars'', PDict [])]),
         (KStr ''web1'', PList [PStr ''10.0.0.1''])]\<rparr>)"
  by (simp add: dict_of_def dict_items_def bind_e_def build_inventory_def add_cloudserver_def
      add_to_group_def append_host_def empty_group_def to_safe_def safe_char_def
      pykey_less_simps)

section \<open>C1: \<^verbatim>\<open>--refresh-cache\<close> and a valid cache\<close>

text \<open>
  When \<^verbatim>\<open>load_from_atlantic_net\<close> gets past its two early returns under
  \<^verbatim>\<open>--refresh-cache\<close>, and the client answers every call, it sends one request for each
  of the four resource kinds, in the order of the source, stores each answer and sets
  \<^verbatim>\<open>cache_refreshed\<close>. It gets past the second return when the cache is not valid or
  the request was for the cloudservers or for all kinds.
\<close>

lemma fetch_ok:
  "manager self = Some m \<Longrightarrow> call m = Inr answer \<Longrightarrow> data self = PDict kvs \<Longrightarrow>
   fetch kind call self w =
     (Inr (self\<lparr>data := PDict (dict_set (KStr kind) answer kvs), cache_refreshed := True\<rparr>),
      w\<lparr>trace := trace w @ [Fetch kind]\<rparr>)"
  by (simp add: fetch_def bind_io_def request_def lift_def ret_def)

lemma refresh_cache_fetches_all:
  assumes "\<not> arg_force_cache (args self)" and "arg_refresh_cache (args self)"
    and "\<not> is_cache_valid self w \<or> resource = Some ''cloudservers'' \<or> resource = None"
    and "manager self = Some m"
    and "all_active_cloudservers m = Inr cs" and "all_images m = Inr im"
    and "plans m = Inr pl" and "all_ssh_keys m = Inr sk"
    and "data self = PDict kvs"
  shows "load_from_atlantic_net resource self w =
     (Inr (self\<lparr>data := PDict (dict_set (KStr ''ssh_keys'') sk (dict_set (KStr ''plans'') pl
                    (dict_set (KStr ''images'') im (dict_set (KStr ''cloudservers'') cs kvs)))),
              cache_refreshed := True\<rparr>),
      w\<lparr>trace := trace w @
        [Fetch ''cloudservers'', Fetch ''images'', Fetch ''plans'', Fetch ''ssh_keys'']\<rparr>)"
proof -
  have skip: "\<not> (is_cache_valid self w \<and> \<not> (resource = Some ''cloudservers'' \<or> resource = None))"
    using assms(3) by blast
  show ?thesis
    unfolding load_from_atlantic_net_def
    using assms(1,2,4-9) skip
    by (auto simp add: Let_def bind_io_def fetch_ok)
qed

text \<open>
  Claim C1 fails on the code where the cache is valid and one kind other than the
  cloudservers was requested: the return for a valid cache comes before the line that
  widens the request. In \<^verbatim>\<open>fresh_cache_world\<close> the settings give the credentials and
  \<^verbatim>\<open>cache_max_age = 3600\<close>, the snapshot is 100 seconds old and the command line is
  \<^verbatim>\<open>--images --refresh-cache\<close>. The run prints the images of the snapshot and ends; the
  trace and the files are those it started with, so no resource kind was fetched and
  the cache was not refreshed.
\<close>

theorem refresh_cache_skipped_when_cache_valid:
  "init fresh_cache_world =
     (Inr (), fresh_cache_world\<lparr>stdout := [Dump False (dict_of [(KStr ''images'', PList [])])]\<rparr>)"
  by (simp add: world_defs run_defs int_defs pykey_less_simps)

section \<open>C2: loading the cache\<close>




section \<open>C3: credentials from the environment\<close>

text \<open>\<^verbatim>\<open>read_environment\<close> never assigns the two attributes the credentials are read
  from.\<close>

lemma read_environment_keeps_keys:
  "public_key (read_environment self w) = public_key self \<and>
   private_key (read_environment self w) = private_key self"
  by (simp add: read_environment_def Let_def)

text \<open>
  Claim C3 fails on the code. In \<^verbatim>\<open>environment_world\<close> both \<^verbatim>\<open>ANET_PUBLIC_KEY\<close> and
  \<^verbatim>\<open>ANET_PRIVATE_KEY\<close> are set, there is no settings file and the command line gives no
  key. The run takes the exit for missing credentials, \<^verbatim>\<open>sys.exit(-1)\<close>, and changes
  nothing.
\<close>

theorem environment_credentials_ignored:
  "init environment_world = (Inl (SystemExit (- 1)), environment_world)"
  by (simp add: world_defs run_defs)

section \<open>C4: the end-to-end scenario of the inventory builder\<close>

text \<open>
  Claim C4, as amended. With the one cloudserver \<^verbatim>\<open>{id: 1, name: "web1", vm_ip_address:
  "10.0.0.1", vm_image: "img-1", vm_image_display_name: "Ubuntu 20.04", vm_plan_name:
  "small", vm_status: "active"}\<close> and empty \<^verbatim>\<open>group_variables\<close>, \<^verbatim>\<open>build_inventory\<close>
  produces exactly the inventory below. It differs from the one of the specification in
  three places. The distribution group is \<^verbatim>\<open>distro_Ubuntu_20.04\<close>, since \<^verbatim>\<open>to_safe\<close>
  keeps the dot. The second loop adds the group \<^verbatim>\<open>image_Ubuntu_20.04\<close>, named after the
  display name of the image. The same loop appends the address to \<^verbatim>\<open>image_img-1\<close> a
  second time, so that host list holds it twice; every other host list holds it once.
\<close>

theorem build_inventory_web1:
  "build_inventory
     (self\<lparr>data := dict_of [(KStr ''cloudservers'', PList [dict_of
        [(KStr ''id'', PInt 1), (KStr ''name'', PStr ''web1''),
         (KStr ''vm_ip_address'', PStr ''10.0.0.1''), (KStr ''vm_image'', PStr ''img-1''),
         (KStr ''vm_image_display_name'', PStr ''Ubuntu 20.04''),
         (KStr ''vm_plan_name'', PStr ''small''), (KStr ''vm_status'', PStr ''active'')]])],
       group_variables := dict_of []\<rparr>)
   = Inr (self\<lparr>data := dict_of [(KStr ''cloudservers'', PList [dict_of
        [(KStr ''id'', PInt 1), (KStr ''name'', PStr ''web1''),
         (KStr ''vm_ip_address'', PStr ''10.0.0.1''), (KStr ''vm_image'', PStr ''img-1''),
         (KStr ''vm_image_display_name'', PStr ''Ubuntu 20.04''),
         (KStr ''vm_plan_name'', PStr ''small''), (KStr ''vm_status'', PStr ''active'')]])],
       group_variables := dict_of [],
       inventory := dict_of
        [(KStr ''all'',
            dict_of [(KStr ''hosts'', PList [PStr ''10.0.0.1'']), (KStr ''vars'', dict_of [])]),
         (KStr ''_meta'', dict_of [(KStr ''hostvars'', dict_of [])]),
         (KInt 1, PList [PStr ''10.0.0.1'']),
         (KStr ''web1'', PList [PStr ''10.0.0.1'']),
         (KStr ''image_img-1'',
            dict_of [(KStr ''hosts'', PList [PStr ''10.0.0.1'', PStr ''10.0.0.1'']),
                     (KStr ''vars'', dict_of [])]),
         (KStr ''plan_small'',
            dict_of [(KStr ''hosts'', PList [PStr ''10.0.0.1'']), (KStr ''vars'', dict_of [])]),
         (KStr ''distro_Ubuntu_20.04'',
            dict_of [(KStr ''hosts'', PList [PStr ''10.0.0.1'']), (KStr ''vars'', dict_of [])]),
         (KStr ''status_active'',
            dict_of [(KStr ''hosts'', PList [PStr ''10.0.0.1'']), (KStr ''vars'', dict_of [])]),
         (KStr ''image_Ubuntu_20.04'',
            dict_of [(KStr ''hosts'', PList [PStr ''10.0.0.1'']), (KStr ''vars'', dict_of [])])]\<rparr>)"
  unfolding web1_inventory
  by (simp add: dict_of_def dict_items_def pykey_less_simps)

text \<open>Claim C4 as stated fails: the inventory the specification gives is not the one
  \<^verbatim>\<open>build_inventory\<close> produces from that cloudserver.\<close>

theorem build_inventory_web1_counterexample:
  "build_inventory
     ((initial bare_world)\<lparr>data := dict_of [(KStr ''cloudservers'', PList [dict_of
        [(KStr ''id'', PInt 1), (KStr ''name'', PStr ''web1''),
         (KStr ''vm_ip_address'', PStr ''10.0.0.1''), (KStr ''vm_image'', PStr ''img-1''),
         (KStr ''vm_image_display_name'', PStr ''Ubuntu 20.04''),
         (KStr ''vm_plan_name'', PStr ''small''), (KStr ''vm_status'', PStr ''active'')]])],
       group_variables := dict_of []\<rparr>)
   \<noteq> Inr ((initial bare_world)\<lparr>data := dict_of [(KStr ''cloudservers'', PList [dict_of
        [(KStr ''id'', PInt 1), (KStr ''name'', PStr ''web1''),
         (KStr ''vm_ip_address'', PStr ''10.0.0.1''), (KStr ''vm_image'', PStr ''img-1''),
         (KStr ''vm_image_display_name'', PStr ''Ubuntu 20.04''),
         (KStr ''vm_plan_name'', PStr ''small''), (KStr ''vm_status'', PStr ''active'')]])],
       group_variables := dict_of [],
       inventory := dict_of
        [(KStr ''all'',
            dict_of [(KStr ''hosts'', PList [PStr ''10.0.0.1'']), (KStr ''vars'', dict_of [])]),
         (KStr ''_meta'', dict_of [(KStr ''hostvars'', dict_of [])]),
         (KInt 1, PList [PStr ''10.0.0.1'']),
         (KStr ''web1'', PList [PStr ''10.0.0.1'']),
         (KStr ''image_img-1'',
            dict_of [(KStr ''hosts'', PList [PStr ''10.0.0.1'']), (KStr ''vars'', dict_of [])]),
         (KStr ''plan_small'',
            dict_of [(KStr ''hosts'', PList [PStr ''10.0.0.1'']), (KStr ''vars'', dict_of [])]),
         (KStr ''distro_Ubuntu_20_04'',
            dict_of [(KStr ''hosts'', PList [PStr ''10.0.0.1'']), (KStr ''vars'', dict_of [])]),
         (KStr ''status_active'',
            dict_of [(KStr ''hosts'', PList [PStr ''10.0.0.1'']), (KStr ''vars'', dict_of [])])]\<rparr>)"
  unfolding web1_inventory
  by (simp add: dict_of_def dict_items_def pykey_less_simps initial_def)

section \<open>C5: the group-name sanitiser\<close>

text \<open>
  Claim C5, as amended. The sanitiser applied to \<^verbatim>\<open>"Ubuntu 20.04!!"\<close> returns
  \<^verbatim>\<open>"Ubuntu_20.04__"\<close>: the space and the two exclamation marks become underscores,
  and the dot, which belongs to the preserved class, stays.
\<close>

theorem to_safe_ubuntu: "to_safe ''Ubuntu 20.04!!'' = ''Ubuntu_20.04__''"
  by (simp add: to_safe_def safe_char_def)

text \<open>Claim C5 as stated fails: the value the specification gives for that example,
  with the dot replaced as well, is not what \<^verbatim>\<open>to_safe\<close> returns.\<close>

theorem to_safe_ubuntu_counterexample: "to_safe ''Ubuntu 20.04!!'' \<noteq> ''Ubuntu_20_04__''"
  by (simp add: to_safe_def safe_char_def)

section \<open>C6: saving and loading the snapshot\<close>




text \<open>\<^verbatim>\<open>json.dumps\<close> writes the key 1 as the name \<^verbatim>\<open>"1"\<close>, and the load returns that
  string as the key.\<close>

lemma save_then_load_numeric_key:
  "save_then_load
     ((initial bare_world)\<lparr>inventory := dict_of [(KInt 1, PList [PStr ''10.0.0.1''])]\<rparr>)
     bare_world
   = Inr (dict_of [], dict_of [(KStr ''1'', PList [PStr ''10.0.0.1''])])"
  by (simp add: save_then_load_def write_to_cache_def write_file_def Let_def
        json_dumps_def load_from_cache_def read_snapshot_def read_file_def bind_e_def
        initial_def bare_world_def dict_of_def dict_items_def pykey_less_simps
        str_of_int_def digit_char_def)

lemma getitem_stable:
  "canonical v \<Longrightarrow> str_keyed v \<Longrightarrow> getitem v name = Inr x \<Longrightarrow> canonical x \<and> str_keyed x"
  by (cases v) (auto simp add: list_all_iff split: option.splits dest!: map_of_SomeD)

text \<open>What \<^verbatim>\<open>load_from_cache\<close> installs has string keys only, so it is saved and loaded
  back unchanged.\<close>

lemma loaded_snapshot_stable:
  assumes "load_from_cache self w = Inr s"
  shows "canonical (data s) \<and> str_keyed (data s) \<and> canonical (inventory s) \<and> str_keyed (inventory s)"
proof -
  from assms obtain snapshot where
    snap: "read_snapshot self w = Inr snapshot"
    and d: "getitem snapshot ''data'' = Inr (data s)"
    and i: "getitem snapshot ''inventory'' = Inr (inventory s)"
    by (auto simp add: load_from_cache_def bind_e_def split: sum.splits)
  have "canonical snapshot \<and> str_keyed snapshot"
  proof (cases "bind_e (read_file w (cache_filename self)) json_loads")
    case (Inl e)
    with snap have "snapshot = empty_snapshot"
      by (simp add: read_snapshot_def split: if_splits)
    then show ?thesis
      by (simp add: empty_snapshot_def dict_of_def dict_items_def pykey_less_simps)
  next
    case (Inr v)
    with snap have "snapshot = v"
      by (simp add: read_snapshot_def)
    moreover from Inr obtain j where "v = decode j"
      by (auto simp add: bind_e_def split: sum.splits elim: json_loads.elims)
    ultimately show ?thesis
      by (simp add: decode_stable)
  qed
  with d i show ?thesis
    by (blast dest: getitem_stable)
qed

section \<open>C7: the validity of the cache\<close>


section \<open>C8: \<^verbatim>\<open>--force-cache\<close>\<close>

text \<open>
  Claim C8. Under \<^verbatim>\<open>--force-cache\<close>, \<^verbatim>\<open>load_from_atlantic_net\<close> returns at once for
  every requested kind and every state of the cache: the object and the world, and with
  it the trace of requests, are unchanged. In a whole run under \<^verbatim>\<open>--force-cache\<close> no
  request for a resource kind is sent.
\<close>

theorem force_cache_never_fetches:
  "(arg_force_cache (args self) \<longrightarrow> load_from_atlantic_net resource self w = (Inr self, w)) \<and>
   (arg_force_cache (argv w) \<longrightarrow> \<not> fetched (events_of_run w))"
proof -
  have "\<not> fetched (events_of_run w)" if force: "arg_force_cache (argv w)"
  proof -
    from init_outcome [of w] obtain evs where
      none: "arg_force_cache (argv w) \<longrightarrow> \<not> fetched evs"
      and ways: "trace (snd (init w)) = trace w @ evs \<and> files (snd (init w)) = files w \<and>
          (fst (init w) = Inr () \<longrightarrow> \<not> fetched evs)
        \<or> fetched evs \<and> trace (snd (init w)) = trace w @ evs @ [Save]"
      by blast
    from force none ways show ?thesis
      by (auto simp add: events_of_run_def)
  qed
  then show ?thesis
    by (simp add: load_forced)
qed

text \<open>Claim C8 for \<^verbatim>\<open>--all --force-cache\<close> with a snapshot in the cache.\<close>

theorem force_cache_never_fetches_witness:
  "arg_force_cache (args ((initial bare_world)\<lparr>args := no_args\<lparr>arg_force_cache := True\<rparr>\<rparr>)) \<and>
   load_from_atlantic_net None ((initial bare_world)\<lparr>args := no_args\<lparr>arg_force_cache := True\<rparr>\<rparr>)
       (stale_cache_world\<lparr>argv := no_args\<lparr>arg_all := True, arg_force_cache := True\<rparr>\<rparr>)
     = (Inr ((initial bare_world)\<lparr>args := no_args\<lparr>arg_force_cache := True\<rparr>\<rparr>),
        stale_cache_world\<lparr>argv := no_args\<lparr>arg_all := True, arg_force_cache := True\<rparr>\<rparr>) \<and>
   arg_force_cache (argv (stale_cache_world\<lparr>argv := no_args\<lparr>arg_all := True, arg_force_cache := True\<rparr>\<rparr>)) \<and>
   \<not> fetched (events_of_run
       (stale_cache_world\<lparr>argv := no_args\<lparr>arg_all := True, arg_force_cache := True\<rparr>\<rparr>))"
  using force_cache_never_fetches
    [where self = "(initial bare_world)\<lparr>args := no_args\<lparr>arg_force_cache := True\<rparr>\<rparr>"
       and resource = None
       and w = "stale_cache_world\<lparr>argv := no_args\<lparr>arg_all := True, arg_force_cache := True\<rparr>\<rparr>"]
  by simp

section \<open>C9: when the cache is written\<close>





section \<open>C10: the snapshot is loaded whatever its age\<close>

text \<open>
  Claim C10. In a run that reaches the cache management (\<^verbatim>\<open>configure\<close> returns the
  object), when the snapshot file is a readable JSON document with the entries
  \<^verbatim>\<open>data\<close> and \<^verbatim>\<open>inventory\<close>, the cache management installs both, whatever the
  modification time of the file, the maximum age and the current time are: the condition
  it tests is the method object. The rest of the run, the connection to the provider and
  the views, starts from the object with the loaded data. The only other outcomes are the
  exit for an empty cache under \<^verbatim>\<open>--force-cache\<close> and the \<^verbatim>\<open>TypeError\<close> of \<^verbatim>\<open>len\<close>
  when the loaded data have no length.
\<close>

theorem stale_cache_loaded_at_startup:
  assumes "configure w = (Inr self, w)"
    and "files w (cache_path self @ ''/ansible-atlantic_net.cache'') = Some (Regular t (JsonText j))"
    and "readable w (cache_path self @ ''/ansible-atlantic_net.cache'')"
    and "getitem (decode j) ''data'' = Inr d"
    and "getitem (decode j) ''inventory'' = Inr i"
    and "loaded = self\<lparr>cache_filename := cache_path self @ ''/ansible-atlantic_net.cache'',
                       cache_refreshed := False, data := d, inventory := i\<rparr>"
  shows "manage_cache self w =
           ((case py_len d of
               Inl e \<Rightarrow> Inl e
             | Inr n \<Rightarrow>
                 if n = 0 \<and> arg_force_cache (args self) then Inl (SystemExit (- 1))
                 else Inr loaded), w) \<and>
         init w =
           (case py_len d of
              Inl e \<Rightarrow> (Inl e, w)
            | Inr n \<Rightarrow>
                if n = 0 \<and> arg_force_cache (args self) then (Inl (SystemExit (- 1)), w)
                else bind_io (connect loaded) (\<lambda>self.
                     bind_io (pick self) (\<lambda>r. finish (fst r) (snd r))) w)"
proof -
  have startup: "manage_cache self w =
      ((case py_len d of
          Inl e \<Rightarrow> Inl e
        | Inr n \<Rightarrow>
            if n = 0 \<and> arg_force_cache (args self) then Inl (SystemExit (- 1))
            else Inr loaded), w)"
    using assms(2-6)
    by (simp add: manage_cache_def method_truth_def Let_def bind_io_def lift_def ret_def raise_def
        load_from_cache_def read_snapshot_def read_file_def bind_e_def split: sum.splits)
  have "init w = bind_io (manage_cache self) (\<lambda>self.
      bind_io (connect self) (\<lambda>self. bind_io (pick self) (\<lambda>r. finish (fst r) (snd r)))) w"
    using assms(1) by (simp add: init_def bind_io_def)
  with startup show ?thesis
    by (simp add: bind_io_def split: sum.splits)
qed

text \<open>Claim C10 in \<^verbatim>\<open>stale_cache_world\<close>, where the cache has expired: the images of
  the snapshot are installed.\<close>

theorem stale_cache_loaded_at_startup_witness:
  "configure stale_cache_world =
     (Inr ((initial stale_cache_world)\<lparr>public_key := Some ''pub'', private_key := Some ''priv'',
             args := no_args\<lparr>arg_list := True\<rparr>\<rparr>), stale_cache_world) \<and>
   files stale_cache_world ''./ansible-atlantic_net.cache''
     = Some (Regular 100 (JsonText images_snapshot)) \<and>
   readable stale_cache_world ''./ansible-atlantic_net.cache'' \<and>
   getitem (decode images_snapshot) ''data'' = Inr (dict_of [(KStr ''images'', PList [])]) \<and>
   getitem (decode images_snapshot) ''inventory'' = Inr (dict_of []) \<and>
   \<not> is_cache_valid
       ((initial stale_cache_world)\<lparr>public_key := Some ''pub'', private_key := Some ''priv'',
          args := no_args\<lparr>arg_list := True\<rparr>,
          cache_filename := ''./ansible-atlantic_net.cache''\<rparr>) stale_cache_world \<and>
   manage_cache
       ((initial stale_cache_world)\<lparr>public_key := Some ''pub'', private_key := Some ''priv'',
          args := no_args\<lparr>arg_list := True\<rparr>\<rparr>) stale_cache_world
     = (Inr ((initial stale_cache_world)\<lparr>public_key := Some ''pub'', private_key := Some ''priv'',
          args := no_args\<lparr>arg_list := True\<rparr>,
          cache_filename := ''./ansible-atlantic_net.cache'', cache_refreshed := False,
          data := dict_of [(KStr ''images'', PList [])], inventory := dict_of []\<rparr>),
        stale_cache_world)"
  using stale_cache_loaded_at_startup
    [where w = stale_cache_world
       and self = "(initial stale_cache_world)\<lparr>public_key := Some ''pub'',
          private_key := Some ''priv'', args := no_args\<lparr>arg_list := True\<rparr>\<rparr>"
       and t = 100 and j = images_snapshot
       and d = "dict_of [(KStr ''images'', PList [])]" and i = "dict_of []"
       and loaded = "(initial stale_cache_world)\<lparr>public_key := Some ''pub'',
          private_key := Some ''priv'', args := no_args\<lparr>arg_list := True\<rparr>,
          cache_filename := ''./ansible-atlantic_net.cache'', cache_refreshed := False,
          data := dict_of [(KStr ''images'', PList [])], inventory := dict_of []\<rparr>"]
  by (simp add: world_defs run_defs pykey_less_simps)

end
